theory Spec2Isabelle
  imports Complex_Main "HOL-Library.Multiset"
begin

section \<open>MyPlan: the engagement tracker of the notification manager\<close>

text \<open>
  The model follows the last revision of \<open>script.js\<close> (class \<open>NotificationManager\<close> and
  class \<open>MyPlanApp\<close>) and \<open>storage.js\<close> (class \<open>TaskStorage\<close>).

  Conventions of the embedding:
  \<^item> a timestamp (\<open>Date.now()\<close>, or an ISO date string read back through \<open>new Date\<close>) is an
    \<open>int\<close>, the milliseconds since the epoch; every clock read of the source is a parameter
    of the function that makes it;
  \<^item> a JavaScript number that need not be an integer (a probability, the engagement score,
    an average) is a \<open>real\<close>: rounding of binary floating point is not modelled;
  \<^item> a \<open>Math.random()\<close> sample is a \<open>real\<close> parameter;
  \<^item> mutation of \<open>this\<close> is state passing: a method takes the object and returns it updated.
\<close>

record user_behavior_data =
  sessionStartTime :: int
  tasksCompletedInSession :: nat
  motivationsShown :: nat
  lastTaskCompletionTime :: int
  averageTaskCompletionTime :: real
  userEngagementScore :: real

record notification_manager =
  motivationTimer :: "nat option"
  topNotificationTimer :: "nat option"
  lastMotivationTime :: int
  motivationCooldown :: int
  periodicMotivationTimer :: "int option"
  userActiveTime :: int
  motivationInterval :: int
  minActiveTime :: int
  isPageVisible :: bool
  userBehaviorData :: user_behavior_data

text \<open>
  The constructor; \<open>nowA\<close> and \<open>nowS\<close> are its two reads of \<open>Date.now()\<close>. A timer field
  holds the delay (or period) of the armed timer, \<open>None\<close> when no timer is armed.
\<close>

definition constructor :: "int \<Rightarrow> int \<Rightarrow> notification_manager" where
  "constructor nowA nowS =
     \<lparr> motivationTimer = None,
       topNotificationTimer = None,
       lastMotivationTime = 0,
       motivationCooldown = 30 * 1000,
       periodicMotivationTimer = None,
       userActiveTime = nowA,
       motivationInterval = 5 * 60 * 1000,
       minActiveTime = 2 * 60 * 1000,
       isPageVisible = True,
       userBehaviorData =
         \<lparr> sessionStartTime = nowS,
           tasksCompletedInSession = 0,
           motivationsShown = 0,
           lastTaskCompletionTime = 0,
           averageTaskCompletionTime = 0,
           userEngagementScore = 0.5 \<rparr> \<rparr>"

text \<open>
  The \<open>data\<close> argument of \<open>updateUserBehaviorData\<close> is an object; the method reads only its
  \<open>taskCreatedTime\<close> property. The inactivity poller passes \<open>{ inactiveTime }\<close>, the other
  callers pass nothing (the default \<open>{}\<close>). A property that is absent is \<open>None\<close>.
\<close>

record event_data =
  taskCreatedTime :: "int option"
  inactiveTime :: "int option"

definition no_data :: event_data where
  "no_data = \<lparr> taskCreatedTime = None, inactiveTime = None \<rparr>"

text \<open>
  \<open>updateUserBehaviorData(action, data)\<close>: a \<open>switch\<close> on the action string with the three
  cases \<open>'taskCompleted'\<close>, \<open>'taskCreated'\<close>, \<open>'userInactive'\<close> and no default case.
  \<open>if (data.taskCreatedTime)\<close> is a truthiness test: an absent property and the number 0
  both skip the average.
\<close>

definition updateUserBehaviorData ::
  "int \<Rightarrow> string \<Rightarrow> event_data \<Rightarrow> notification_manager \<Rightarrow> notification_manager" where
  "updateUserBehaviorData now action data nm =
     (let d = userBehaviorData nm in
      if action = ''taskCompleted'' then
        (let d1 = d\<lparr> tasksCompletedInSession := tasksCompletedInSession d + 1,
                      lastTaskCompletionTime := now \<rparr>;
             d2 = (case taskCreatedTime data of
                     None \<Rightarrow> d1
                   | Some created \<Rightarrow>
                       if created = 0 then d1
                       else
                         (let completionTime = real_of_int (now - created) in
                          if averageTaskCompletionTime d1 = 0
                          then d1\<lparr> averageTaskCompletionTime := completionTime \<rparr>
                          else d1\<lparr> averageTaskCompletionTime :=
                                     (averageTaskCompletionTime d1 + completionTime) / 2 \<rparr>))
         in nm\<lparr> userBehaviorData :=
                  d2\<lparr> userEngagementScore := min (userEngagementScore d2 + 0.1) 1.0 \<rparr> \<rparr>)
      else if action = ''taskCreated'' then
        nm\<lparr> userBehaviorData :=
              d\<lparr> userEngagementScore := min (userEngagementScore d + 0.05) 1.0 \<rparr> \<rparr>
      else if action = ''userInactive'' then
        nm\<lparr> userBehaviorData :=
              d\<lparr> userEngagementScore := max (userEngagementScore d - 0.02) 0.1 \<rparr> \<rparr>
      else nm)"

text \<open>
  A finite sequence of calls: each call has its own clock read, action string and data.
\<close>

fun updates ::
  "(int \<times> string \<times> event_data) list \<Rightarrow> notification_manager \<Rightarrow> notification_manager" where
  "updates [] nm = nm"
| "updates ((now, action, data) # calls) nm =
     updates calls (updateUserBehaviorData now action data nm)"

definition score :: "notification_manager \<Rightarrow> real" where
  "score nm = userEngagementScore (userBehaviorData nm)"

definition score_in_range :: "notification_manager \<Rightarrow> bool" where
  "score_in_range nm = (0.1 \<le> score nm \<and> score nm \<le> 1.0)"


section \<open>Tasks, time of day and the status banner\<close>

text \<open>
  A task object. \<open>priority\<close> is a string in the source (the value of a select box, or
  whatever an imported file holds). \<open>createdAt\<close>, \<open>updatedAt\<close> and \<open>completedAt\<close> are ISO
  date strings in the source, and timestamps here: a task whose date strings do not parse
  is outside the model. \<open>completedAt\<close> has three states: the property is absent (\<open>addTask\<close>
  creates a task without it), it is \<open>null\<close> (\<open>toggleTask\<close> writes that when the task becomes
  incomplete), or it holds a date.
\<close>

datatype timestamp_field = Absent | Null | Time int

record task =
  task_id :: string
  task_text :: string
  priority :: string
  completed :: bool
  createdAt :: int
  updatedAt :: int
  completedAt :: timestamp_field

datatype timeOfDay = Morning | Afternoon | Evening | Night

text \<open>\<open>getTimeOfDay()\<close>; \<open>hour\<close> is \<open>new Date().getHours()\<close>.\<close>

definition getTimeOfDay :: "nat \<Rightarrow> timeOfDay" where
  "getTimeOfDay hour =
     (if hour \<ge> 6 \<and> hour < 12 then Morning
      else if hour \<ge> 12 \<and> hour < 18 then Afternoon
      else if hour \<ge> 18 \<and> hour < 22 then Evening
      else Night)"

datatype urgency = Normal | Medium | High

datatype notification_type = Top | Motivation | Popup

text \<open>
  The message texts of the source are Chinese string literals and templates. A message is
  identified here by its template and the numbers interpolated into it; a message of a pool
  of literals by the pool and its index in the pool:
  \<^item> \<open>NightPending n\<close>, \<open>ImportantWaiting n\<close>, \<open>GreetingPending t n\<close>: the three banner
    templates of \<open>showSmartNotification\<close> (night, important tasks, greeting of the time
    of day \<open>t\<close>), with the count \<open>n\<close>;
  \<^item> \<open>AllCompleted\<close>, \<open>ImportantRemaining n\<close>: the two banner texts that only
    \<open>convertMotivationToTopNotification\<close> has (its third one is the greeting template);
  \<^item> the others: the pools of \<open>getMotivationMessages\<close>;
  \<^item> \<open>UndefinedMessage\<close>: \<open>undefined\<close>, what an array read out of range gives;
  \<^item> \<open>InitialText\<close>: the text of the page before any notification was written.
\<close>

datatype message =
    InitialText
  | NightPending nat
  | ImportantWaiting nat
  | GreetingPending timeOfDay nat
  | AllCompleted
  | ImportantRemaining nat
  | TimeMessage timeOfDay nat
  | DoneMessage nat
  | FewLeftMessage nat
  | ProgressMessage nat nat
  | StartMessage nat
  | HighRateMessage nat
  | HalfRateMessage nat
  | MorningPeakMessage
  | AfternoonPeakMessage
  | EveningPeakMessage
  | Quote nat
  | UndefinedMessage

text \<open>The argument of \<open>show(options)\<close>, with the defaults filled in.\<close>

record directive =
  d_message :: message
  d_type :: notification_type
  d_urgency :: urgency
  d_duration :: nat
  d_closable :: bool

definition uncompleted :: "task list \<Rightarrow> task list" where
  "uncompleted ts = filter (\<lambda>t. \<not> completed t) ts"

definition important :: "task list \<Rightarrow> task list" where
  "important ts = filter (\<lambda>t. priority t = ''important'') ts"

text \<open>
  \<open>completedToday\<close>: \<open>isToday t\<close> stands for
  \<open>new Date(t).toDateString() === new Date().toDateString()\<close>, the host's calendar.
\<close>

definition completedToday :: "(int \<Rightarrow> bool) \<Rightarrow> task list \<Rightarrow> task list" where
  "completedToday isToday ts =
     filter (\<lambda>t. completed t \<and>
                 (case completedAt t of Absent \<Rightarrow> False | Null \<Rightarrow> False
                                      | Time c \<Rightarrow> isToday c)) ts"

text \<open>
  The banner rules of \<open>showSmartNotification\<close>: the \<open>if\<close> chain that sets \<open>message\<close> and
  \<open>urgency\<close>. \<open>None\<close> is the empty message, for which no banner is shown.
\<close>

definition smartBanner :: "timeOfDay \<Rightarrow> task list \<Rightarrow> message option \<times> urgency" where
  "smartBanner tod ts =
     (let uncompletedTasks = uncompleted ts;
          importantTasks = important uncompletedTasks
      in if tod = Night \<and> length uncompletedTasks > 0
           then (Some (NightPending (length uncompletedTasks)), High)
         else if length importantTasks > 0
           then (Some (ImportantWaiting (length importantTasks)), Medium)
         else if length uncompletedTasks > 0
           then (Some (GreetingPending tod (length uncompletedTasks)), Normal)
         else (None, Normal))"

text \<open>
  The banner rules of \<open>convertMotivationToTopNotification\<close>: the \<open>if\<close> chain that sets
  \<open>topMessage\<close> and \<open>urgency\<close>.
\<close>

definition convertedBanner :: "timeOfDay \<Rightarrow> task list \<Rightarrow> message \<times> urgency" where
  "convertedBanner tod ts =
     (let uncompletedTasks = uncompleted ts;
          importantTasks = important uncompletedTasks
      in if length uncompletedTasks = 0 then (AllCompleted, Normal)
         else if length importantTasks > 0
           then (ImportantRemaining (length importantTasks), Medium)
         else (GreetingPending tod (length uncompletedTasks), Normal))"

section \<open>The notification element of the page\<close>

text \<open>
  The element \<open>#unified-notification\<close> and the children the manager looks up in it. A child
  that \<open>querySelector\<close> does not find is \<open>None\<close>. \<open>classes\<close> is \<open>className\<close> split at spaces.
  The writes made later by \<open>requestAnimationFrame\<close> callbacks (display, the class \<open>show\<close>)
  are not part of the state a method returns.
\<close>

record notification_element =
  classes :: "string list"
  displayed :: bool
  text_child :: "message option"
  icon_child :: "string list option"
  close_child :: "bool option"

text \<open>
  The page: \<open>notification\<close> is \<open>document.getElementById('unified-notification')\<close>, and
  \<open>hideTimeouts\<close> the delays of the pending timeouts that will call
  \<open>hideTopNotification\<close> and that no field of the manager holds.
\<close>

record page =
  notification :: "notification_element option"
  hideTimeouts :: "nat list"

type_synonym world = "page \<times> notification_manager"

definition urgencyClasses :: "urgency \<Rightarrow> string list" where
  "urgencyClasses u =
     (if u = Medium then [''warning''] else if u = High then [''urgent''] else [])"

definition urgencyIcon :: "urgency \<Rightarrow> string list" where
  "urgencyIcon u =
     (case u of Normal \<Rightarrow> [''fas'', ''fa-info-circle'']
              | Medium \<Rightarrow> [''fas'', ''fa-exclamation-triangle'']
              | High \<Rightarrow> [''fas'', ''fa-exclamation-circle''])"

definition showTopNotification :: "message \<Rightarrow> urgency \<Rightarrow> nat \<Rightarrow> bool \<Rightarrow> world \<Rightarrow> world" where
  "showTopNotification msg u duration closable w =
     (let (pg, nm) = w in
      case notification pg of
        None \<Rightarrow> w
      | Some el \<Rightarrow>
          (case text_child el of
             None \<Rightarrow> w
           | Some _ \<Rightarrow>
               (let el' = el\<lparr> classes := ''unified-notification'' # urgencyClasses u,
                             text_child := Some msg,
                             icon_child := map_option
                                (\<lambda>_. ''notification-icon'' # urgencyIcon u) (icon_child el),
                             close_child := map_option (\<lambda>_. closable) (close_child el) \<rparr>
                in (pg\<lparr> notification := Some el' \<rparr>,
                    nm\<lparr> topNotificationTimer :=
                          (if duration > 0 then Some duration else None) \<rparr>))))"

definition showMotivationMessage :: "message \<Rightarrow> nat \<Rightarrow> bool \<Rightarrow> world \<Rightarrow> world" where
  "showMotivationMessage msg duration closable w =
     (let (pg, nm) = w in
      case notification pg of
        None \<Rightarrow> w
      | Some el \<Rightarrow>
          (case text_child el of
             None \<Rightarrow> w
           | Some _ \<Rightarrow>
               (let el' = el\<lparr> classes := [''unified-notification'', ''motivation''],
                             text_child := Some msg,
                             icon_child := map_option
                                (\<lambda>_. [''notification-icon'', ''fas'', ''fa-lightbulb''])
                                (icon_child el),
                             close_child := map_option (\<lambda>_. closable) (close_child el) \<rparr>
                in (pg\<lparr> notification := Some el' \<rparr>,
                    nm\<lparr> motivationTimer := Some duration \<rparr>))))"

text \<open>
  \<open>show(options)\<close>. A popup is a new node appended to the body; it touches neither the
  unified element nor a field of the manager the model has.
\<close>

definition show_notification :: "directive \<Rightarrow> world \<Rightarrow> world" where
  "show_notification d w =
     (case d_type d of
        Top \<Rightarrow> showTopNotification (d_message d) (d_urgency d) (d_duration d) (d_closable d) w
      | Motivation \<Rightarrow> showMotivationMessage (d_message d) (d_duration d) (d_closable d) w
      | Popup \<Rightarrow> w)"

text \<open>
  \<open>convertMotivationToTopNotification()\<close>, the callback of the motivation timer. \<open>hour\<close> is
  the clock read of \<open>getTimeOfDay\<close>; \<open>app_tasks\<close> is \<open>app.tasks\<close>, \<open>None\<close> when there is no
  \<open>app\<close> (the source then takes the empty list).
\<close>

definition convertMotivationToTopNotification ::
  "nat \<Rightarrow> task list option \<Rightarrow> world \<Rightarrow> world" where
  "convertMotivationToTopNotification hour app_tasks w =
     (let (pg, nm) = w in
      case notification pg of
        None \<Rightarrow> w
      | Some el \<Rightarrow>
          if ''motivation'' \<notin> set (classes el) then w
          else
            (let ts = (case app_tasks of None \<Rightarrow> [] | Some l \<Rightarrow> l);
                 (topMessage, u) = convertedBanner (getTimeOfDay hour) ts;
                 el' = el\<lparr> text_child := map_option (\<lambda>_. topMessage) (text_child el),
                           displayed := True,
                           classes := [''unified-notification'', ''show''] @ urgencyClasses u,
                           icon_child := map_option
                              (\<lambda>_. ''notification-icon'' # urgencyIcon u) (icon_child el) \<rparr>
             in (pg\<lparr> notification := Some el',
                     hideTimeouts := hideTimeouts pg @ [15000] \<rparr>,
                 nm\<lparr> motivationTimer := None \<rparr>)))"

section \<open>Motivation messages: pools, probabilities and the two evaluations\<close>

text \<open>
  The clock and random reads of \<open>getMotivationMessages\<close>: \<open>new Date().getHours()\<close> and the
  \<open>Math.random()\<close> sample that decides whether the quotes are appended.
\<close>

record message_reads =
  hourM :: nat
  randomQuote :: real

definition pool :: "(nat \<Rightarrow> message) \<Rightarrow> nat \<Rightarrow> message list" where
  "pool f n = map f [0..<n]"

text \<open>
  \<open>getMotivationMessages(timeOfDay, uncompletedCount, completedCount)\<close>. Each of the four
  lists of \<open>timeMessages\<close> has 10 literals. In the progress pool the literals at index 0
  and 10 interpolate \<open>completedCount\<close>. \<open>completedCount / (completedCount +
  uncompletedCount) || 0\<close> is 0 when both counts are 0 (the quotient is then NaN).
\<close>

definition getMotivationMessages ::
  "message_reads \<Rightarrow> timeOfDay \<Rightarrow> nat \<Rightarrow> nat \<Rightarrow> message list" where
  "getMotivationMessages rd tod uncompletedCount completedCount =
     (let timePart = pool (TimeMessage tod) 10;
          statePart =
            (if uncompletedCount = 0 then pool DoneMessage 12
             else if uncompletedCount \<le> 3 then pool FewLeftMessage 10
             else if completedCount > 0
               then pool (\<lambda>i. ProgressMessage i
                                 (if i = 0 \<or> i = 10 then completedCount else 0)) 12
             else pool StartMessage 15);
          completionRate =
            (if completedCount + uncompletedCount = 0 then 0
             else real completedCount / real (completedCount + uncompletedCount));
          ratePart =
            (if completionRate > 0.8 then pool HighRateMessage 3
             else if completionRate > 0.5 then pool HalfRateMessage 3
             else []);
          hour = hourM rd;
          hourPart =
            (if hour \<ge> 9 \<and> hour \<le> 11 then [MorningPeakMessage]
             else if hour \<ge> 14 \<and> hour \<le> 16 then [AfternoonPeakMessage]
             else if hour \<ge> 20 \<and> hour \<le> 22 then [EveningPeakMessage]
             else []);
          quotePart = (if randomQuote rd < 0.1 then pool Quote 10 else [])
      in timePart @ statePart @ ratePart @ hourPart @ quotePart)"

text \<open>
  \<open>messages[Math.floor(r * messages.length)]\<close>: an index outside the array reads
  \<open>undefined\<close>.
\<close>

definition pick :: "real \<Rightarrow> message list \<Rightarrow> message" where
  "pick r msgs =
     (let i = \<lfloor>r * real (length msgs)\<rfloor>
      in if 0 \<le> i \<and> nat i < length msgs then msgs ! nat i else UndefinedMessage)"

text \<open>
  The probability of \<open>showSmartNotification\<close>: the \<open>if\<close> chain that sets
  \<open>motivationProbability\<close>, from the numbers of uncompleted tasks and of tasks completed today.
\<close>

definition smartProbability :: "timeOfDay \<Rightarrow> nat \<Rightarrow> nat \<Rightarrow> real" where
  "smartProbability tod uncompletedCount completedTodayCount =
     (if uncompletedCount = 0 \<and> completedTodayCount > 0 then 0.85
      else if completedTodayCount \<ge> 5 then 0.75
      else if uncompletedCount > 10 then 0.45
      else if tod = Morning then 0.7
      else 0.6)"

text \<open>
  The reads of \<open>showSmartNotification\<close>, in the order of the source: the hour of
  \<open>getTimeOfDay\<close>, the calendar test of \<open>completedToday\<close>, \<open>Date.now()\<close>, the sample compared
  with the probability, the reads of \<open>getMotivationMessages\<close>, the sample that picks the message.
\<close>

record smart_reads =
  hourS :: nat
  isTodayS :: "int \<Rightarrow> bool"
  nowS :: int
  randomS :: real
  messageS :: message_reads
  pickS :: real

text \<open>
  \<open>showSmartNotification(tasks)\<close> returns the arguments of its calls of \<open>show\<close>, in order,
  and the state after them. The pool of messages tested for emptiness is never empty
  (10 literals for each time of day), but the test is kept.
\<close>

definition showSmartNotification ::
  "smart_reads \<Rightarrow> task list \<Rightarrow> world \<Rightarrow> directive list \<times> world" where
  "showSmartNotification rd ts w =
     (let tod = getTimeOfDay (hourS rd);
          uncompletedTasks = uncompleted ts;
          completedTodayTasks = completedToday (isTodayS rd) ts;
          (msg, u) = smartBanner tod ts;
          (shown1, w1) =
            (case msg of
               None \<Rightarrow> ([], w)
             | Some m \<Rightarrow>
                 (let d = \<lparr> d_message = m, d_type = Top, d_urgency = u,
                            d_duration = 0, d_closable = True \<rparr>
                  in ([d], show_notification d w)));
          motivationProbability =
            smartProbability tod (length uncompletedTasks) (length completedTodayTasks);
          now = nowS rd;
          timeSinceLastMotivation = now - lastMotivationTime (snd w1)
      in if randomS rd \<le> motivationProbability
            \<and> timeSinceLastMotivation \<ge> motivationCooldown (snd w1)
         then
           (let motivationMessages =
                  getMotivationMessages (messageS rd) tod
                    (length uncompletedTasks) (length completedTodayTasks)
            in if length motivationMessages > 0
               then
                 (let d = \<lparr> d_message = pick (pickS rd) motivationMessages,
                            d_type = Motivation, d_urgency = Normal,
                            d_duration = 5000, d_closable = True \<rparr>;
                      (pg2, nm2) = show_notification d w1
                  in (shown1 @ [d], (pg2, nm2\<lparr> lastMotivationTime := now \<rparr>)))
               else (shown1, w1))
         else (shown1, w1))"

text \<open>
  The reads of \<open>calculateSmartMotivationProbability\<close>: its two \<open>Date.now()\<close> and the hour.
\<close>

record probability_reads =
  nowSession :: int
  nowCompletion :: int
  hourP :: nat

text \<open>
  \<open>calculateSmartMotivationProbability(uncompletedTasks, completedToday, timeOfDay)\<close>; only
  the lengths of the two lists are read, and \<open>timeOfDay\<close> is not read at all.
\<close>

definition calculateSmartMotivationProbability ::
  "probability_reads \<Rightarrow> notification_manager \<Rightarrow> nat \<Rightarrow> nat \<Rightarrow> timeOfDay \<Rightarrow> real" where
  "calculateSmartMotivationProbability rd nm uncompletedCount completedTodayCount tod =
     (let d = userBehaviorData nm;
          p0 = (if uncompletedCount = 0 \<and> completedTodayCount > 0 then 0.8
                else if completedTodayCount \<ge> 3 then 0.6
                else if uncompletedCount > 8 then 0.3
                else 0.4);
          engagementMultiplier = 0.5 + userEngagementScore d * 0.5;
          p1 = p0 * engagementMultiplier;
          sessionDuration = nowSession rd - sessionStartTime d;
          sessionHours = real_of_int sessionDuration / (1000 * 60 * 60);
          p2 = (if sessionHours > 2 then p1 * 1.2
                else if sessionHours < 0.5 then p1 * 0.8
                else p1);
          timeSinceLastCompletion = nowCompletion rd - lastTaskCompletionTime d;
          p3 = (if timeSinceLastCompletion > 30 * 60 * 1000 then p2 * 1.3 else p2);
          motivationRate = real (motivationsShown d) / max sessionHours 0.1;
          p4 = (if motivationRate > 3 then p3 * 0.7 else p3);
          hour = hourP rd;
          p5 = (if (hour \<ge> 9 \<and> hour \<le> 11) \<or> (hour \<ge> 14 \<and> hour \<le> 16) then p4 * 1.1
                else if hour \<ge> 22 \<or> hour \<le> 6 then p4 * 0.8
                else p4)
      in min (max p5 0.1) 0.9)"

text \<open>
  The reads of \<open>checkAndShowPeriodicMotivation\<close>, in the order of the source: \<open>Date.now()\<close>
  for the activity test, \<open>Date.now()\<close> for the cooldown test, the calendar test of
  \<open>completedToday\<close>, the hour of \<open>getTimeOfDay\<close>, the reads of the probability, the sample
  compared with it, the reads of \<open>getMotivationMessages\<close>, the sample that picks the message,
  and \<open>Date.now()\<close> stored in \<open>lastMotivationTime\<close>.
\<close>

record periodic_reads =
  nowActive :: int
  nowCooldown :: int
  isTodayP :: "int \<Rightarrow> bool"
  hourT :: nat
  probabilityP :: probability_reads
  randomP :: real
  messageP :: message_reads
  pickP :: real
  nowStamp :: int

definition checkAndShowPeriodicMotivation ::
  "periodic_reads \<Rightarrow> task list option \<Rightarrow> world \<Rightarrow> directive list \<times> world" where
  "checkAndShowPeriodicMotivation rd app_tasks w =
     (let (pg, nm) = w in
      if \<not> isPageVisible nm then ([], w)
      else if nowActive rd - userActiveTime nm > minActiveTime nm then ([], w)
      else if nowCooldown rd - lastMotivationTime nm < motivationCooldown nm then ([], w)
      else
        (let ts = (case app_tasks of None \<Rightarrow> [] | Some l \<Rightarrow> l);
             uncompletedTasks = uncompleted ts;
             completedTodayTasks = completedToday (isTodayP rd) ts;
             tod = getTimeOfDay (hourT rd);
             probability =
               calculateSmartMotivationProbability (probabilityP rd) nm
                 (length uncompletedTasks) (length completedTodayTasks) tod
         in if randomP rd \<le> probability
            then
              (let motivationMessages =
                     getMotivationMessages (messageP rd) tod
                       (length uncompletedTasks) (length completedTodayTasks)
               in if length motivationMessages > 0
                  then
                    (let d = \<lparr> d_message = pick (pickP rd) motivationMessages,
                               d_type = Motivation, d_urgency = Normal,
                               d_duration = 5000, d_closable = True \<rparr>;
                         (pg2, nm2) = show_notification d w;
                         ubd = userBehaviorData nm2
                     in ([d],
                         (pg2, nm2\<lparr> lastMotivationTime := nowStamp rd,
                                    userBehaviorData :=
                                      ubd\<lparr> motivationsShown := motivationsShown ubd + 1 \<rparr> \<rparr>)))
                  else ([], w))
            else ([], w)))"

text \<open>
  An encouragement evaluation is a call of one of the two methods. \<open>checkTime\<close> is the clock
  read an evaluation compares with \<open>lastMotivationTime\<close>, \<open>stampTime\<close> the clock read it stores
  there when it shows a motivation message; \<open>showSmartNotification\<close> uses one read for both.
\<close>

datatype evaluation =
    Smart smart_reads "task list"
  | Periodic periodic_reads "task list option"

fun evaluate :: "evaluation \<Rightarrow> world \<Rightarrow> directive list \<times> world" where
  "evaluate (Smart rd ts) w = showSmartNotification rd ts w"
| "evaluate (Periodic rd app_tasks) w = checkAndShowPeriodicMotivation rd app_tasks w"

fun checkTime :: "evaluation \<Rightarrow> int" where
  "checkTime (Smart rd ts) = nowS rd"
| "checkTime (Periodic rd app_tasks) = nowCooldown rd"

fun stampTime :: "evaluation \<Rightarrow> int" where
  "stampTime (Smart rd ts) = nowS rd"
| "stampTime (Periodic rd app_tasks) = nowStamp rd"

definition emitsMotivation :: "directive list \<Rightarrow> bool" where
  "emitsMotivation ds = (filter (\<lambda>d. d_type d = Motivation) ds \<noteq> [])"

section \<open>The task store\<close>

text \<open>
  A JSON value, as \<open>JSON.parse\<close> returns it and \<open>JSON.stringify\<close> takes it. \<open>JTime t\<close> is
  the string that holds the ISO form of the timestamp \<open>t\<close>. An object is the list of its
  own properties, each key once.
\<close>

datatype json =
    JNull
  | JBool bool
  | JNum real
  | JStr string
  | JTime int
  | JArr "json list"
  | JObj "(string \<times> json) list"

datatype js_error = TypeError | SyntaxError | FormatError | QuotaExceededError

text \<open>
  Reading the property \<open>tasks\<close> or \<open>settings\<close> of a value: \<open>null\<close> throws, an object gives
  the property or \<open>undefined\<close> (\<open>None\<close>), any other value gives \<open>undefined\<close>.
\<close>

fun property :: "string \<Rightarrow> json \<Rightarrow> js_error + json option" where
  "property k JNull = Inl TypeError"
| "property k (JObj kvs) = Inr (map_of kvs k)"
| "property k v = Inr None"

text \<open>Truthiness of a value or of \<open>undefined\<close>.\<close>

fun truthy :: "json option \<Rightarrow> bool" where
  "truthy None = False"
| "truthy (Some JNull) = False"
| "truthy (Some (JBool b)) = b"
| "truthy (Some (JNum x)) = (x \<noteq> 0)"
| "truthy (Some (JStr s)) = (s \<noteq> [])"
| "truthy (Some v) = True"

fun isArray :: "json option \<Rightarrow> bool" where
  "isArray (Some (JArr vs)) = True"
| "isArray v = False"

fun elements :: "json option \<Rightarrow> json list" where
  "elements (Some (JArr vs)) = vs"
| "elements v = []"

text \<open>
  \<open>localStorage\<close>: the items, stored as the values whose serialisations they are, and the
  writes the host refuses (\<open>setItem\<close> throws: the quota is exceeded, or storage is disabled).
\<close>

record local_storage =
  items :: "string \<rightharpoonup> json"
  refuses :: "string \<Rightarrow> json \<Rightarrow> bool"

definition setItem :: "string \<Rightarrow> json \<Rightarrow> local_storage \<Rightarrow> js_error + local_storage" where
  "setItem k v st =
     (if refuses st k v then Inl QuotaExceededError
      else Inr (st\<lparr> items := (items st)(k \<mapsto> v) \<rparr>))"

definition storageKey :: string where
  "storageKey = ''myplan_tasks''"

definition settingsKey :: string where
  "settingsKey = ''myplan_settings''"

text \<open>\<open>saveTasks(tasks)\<close>; \<open>now\<close> is the clock read of \<open>lastModified\<close>.\<close>

definition saveTasks :: "int \<Rightarrow> json list \<Rightarrow> local_storage \<Rightarrow> bool \<times> local_storage" where
  "saveTasks now ts st =
     (let taskData = JObj [(''tasks'', JArr ts),
                           (''lastModified'', JTime now),
                           (''version'', JStr ''1.0'')]
      in case setItem storageKey taskData st of
           Inr st' \<Rightarrow> (True, st')
         | Inl e \<Rightarrow> (False, st))"

definition saveSettings :: "json \<Rightarrow> local_storage \<Rightarrow> bool \<times> local_storage" where
  "saveSettings settings st =
     (case setItem settingsKey settings st of
        Inr st' \<Rightarrow> (True, st')
      | Inl e \<Rightarrow> (False, st))"

text \<open>\<open>loadTasks()\<close>: the stored collection, empty when nothing valid is stored.\<close>

definition loadTasks :: "local_storage \<Rightarrow> json list" where
  "loadTasks st =
     (case items st storageKey of
        None \<Rightarrow> []
      | Some taskData \<Rightarrow>
          (case property ''tasks'' taskData of
             Inl e \<Rightarrow> []
           | Inr ts \<Rightarrow> if \<not> truthy ts \<or> \<not> isArray ts then [] else elements ts))"

definition getSettings :: "local_storage \<Rightarrow> json option" where
  "getSettings st = items st settingsKey"

text \<open>
  \<open>importTasks(jsonData)\<close>. \<open>parsed\<close> is the outcome of \<open>JSON.parse(jsonData)\<close>: the value, or
  the error it throws. The body of the \<open>try\<close> is \<open>importBody\<close>, with a thrown error as
  \<open>Inl\<close>; the \<open>catch\<close> turns every error into the result \<open>false\<close>.
\<close>

definition importBody ::
  "js_error + json \<Rightarrow> int \<Rightarrow> local_storage \<Rightarrow> js_error + (bool \<times> local_storage)" where
  "importBody parsed now st =
     (case parsed of
        Inl e \<Rightarrow> Inl e
      | Inr importData \<Rightarrow>
          (case property ''tasks'' importData of
             Inl e \<Rightarrow> Inl e
           | Inr ts \<Rightarrow>
               if \<not> truthy ts \<or> \<not> isArray ts then Inl FormatError
               else
                 (let (success, st1) = saveTasks now (elements ts) st
                  in case property ''settings'' importData of
                       Inl e \<Rightarrow> Inl e
                     | Inr settings \<Rightarrow>
                         (case settings of
                            Some v \<Rightarrow>
                              if truthy settings \<and> success
                              then Inr (True, snd (saveSettings v st1))
                              else Inr (True, st1)
                          | None \<Rightarrow> Inr (True, st1)))))"

definition importTasks :: "js_error + json \<Rightarrow> int \<Rightarrow> local_storage \<Rightarrow> bool \<times> local_storage" where
  "importTasks parsed now st =
     (case importBody parsed now st of
        Inr result \<Rightarrow> result
      | Inl e \<Rightarrow> (False, st))"

section \<open>The application: grouping and toggling\<close>

text \<open>
  \<open>Array.prototype.sort(compare)\<close> is a stable sort. With a comparator that is a consistent
  ordering its result is determined, and it is the result of this insertion sort: an element
  goes before the first element of the sorted rest that it does not compare greater than.
\<close>

fun insert_by :: "('a \<Rightarrow> 'a \<Rightarrow> int) \<Rightarrow> 'a \<Rightarrow> 'a list \<Rightarrow> 'a list" where
  "insert_by cmp x [] = [x]"
| "insert_by cmp x (y # ys) =
     (if cmp x y \<le> 0 then x # y # ys else y # insert_by cmp x ys)"

fun sort_by :: "('a \<Rightarrow> 'a \<Rightarrow> int) \<Rightarrow> 'a list \<Rightarrow> 'a list" where
  "sort_by cmp [] = []"
| "sort_by cmp (x # xs) = insert_by cmp x (sort_by cmp xs)"

text \<open>The comparator of \<open>getTasksByPriority\<close>; the difference of two dates is in milliseconds.\<close>

definition compareTasks :: "task \<Rightarrow> task \<Rightarrow> int" where
  "compareTasks a b =
     (if completed a \<noteq> completed b then (if completed a then 1 else -1)
      else createdAt b - createdAt a)"

definition priorities :: "string list" where
  "priorities = [''important'', ''daily'', ''secondary'', ''general'']"

text \<open>\<open>getTasksByPriority()\<close>: the object \<open>grouped\<close>, as the list of its four properties.\<close>

definition getTasksByPriority :: "task list \<Rightarrow> (string \<times> task list) list" where
  "getTasksByPriority ts =
     map (\<lambda>p. (p, sort_by compareTasks (filter (\<lambda>t. priority t = p) ts))) priorities"

definition bucket :: "string \<Rightarrow> task list \<Rightarrow> task list" where
  "bucket p ts = (case map_of (getTasksByPriority ts) p of None \<Rightarrow> [] | Some b \<Rightarrow> b)"

text \<open>
  The serialisation of a task, as \<open>JSON.stringify\<close> writes it: a \<open>completedAt\<close> that is
  absent is left out, one that is \<open>null\<close> is written as \<open>null\<close>.
\<close>

definition task_json :: "task \<Rightarrow> json" where
  "task_json t =
     JObj ([(''id'', JStr (task_id t)),
           (''text'', JStr (task_text t)),
           (''priority'', JStr (priority t)),
           (''completed'', JBool (completed t)),
           (''createdAt'', JTime (createdAt t)),
           (''updatedAt'', JTime (updatedAt t))]
          @ (case completedAt t of
               Absent \<Rightarrow> []
             | Null \<Rightarrow> [(''completedAt'', JNull)]
             | Time c \<Rightarrow> [(''completedAt'', JTime c)]))"

record my_plan_app =
  tasks :: "task list"
  currentFilter :: string
  editingTaskId :: "string option"
  notificationManager :: notification_manager

text \<open>
  \<open>this.tasks.find(t => t.id === taskId)\<close> gives the first task with the id, and the method
  then writes to that object: \<open>update_first\<close> is the array after the writes.
\<close>

fun update_first :: "string \<Rightarrow> (task \<Rightarrow> task) \<Rightarrow> task list \<Rightarrow> task list" where
  "update_first tid f [] = []"
| "update_first tid f (t # ts) =
     (if task_id t = tid then f t # ts else t # update_first tid f ts)"

definition find_task :: "string \<Rightarrow> task list \<Rightarrow> task option" where
  "find_task tid ts = find (\<lambda>t. task_id t = tid) ts"

text \<open>
  The clock reads of \<open>toggleTask\<close>, in the order of the source: \<open>new Date()\<close> of
  \<open>completedAt\<close>, \<open>Date.now()\<close> inside \<open>updateUserBehaviorData\<close> (both only when the task becomes
  completed), \<open>new Date()\<close> of \<open>updatedAt\<close>, \<open>new Date()\<close> of \<open>saveTasks\<close>.
\<close>

record toggle_reads =
  nowCompletedAt :: int
  nowBehavior :: int
  nowUpdatedAt :: int
  nowSaved :: int

text \<open>
  \<open>toggleTask(taskId)\<close>, on the application and the storage. \<open>updateUI\<close> and the popup that
  follow write to nodes of the page that the model does not have.
\<close>

definition toggleTask ::
  "toggle_reads \<Rightarrow> string \<Rightarrow> my_plan_app \<times> local_storage \<Rightarrow> my_plan_app \<times> local_storage" where
  "toggleTask rd taskId s =
     (let (app, st) = s in
      case find_task taskId (tasks app) of
        None \<Rightarrow> s
      | Some found \<Rightarrow>
          (let nowCompleted = \<not> completed found;
               write = (\<lambda>t. t\<lparr> completed := nowCompleted,
                               completedAt :=
                                 (if nowCompleted then Time (nowCompletedAt rd) else Null),
                               updatedAt := nowUpdatedAt rd \<rparr>);
               nm = notificationManager app;
               nm' = (if nowCompleted
                      then updateUserBehaviorData (nowBehavior rd) ''task_completed'' no_data nm
                      else nm);
               ts' = update_first taskId write (tasks app);
               (saved, st') = saveTasks (nowSaved rd) (map task_json ts') st
           in (app\<lparr> tasks := ts', notificationManager := nm' \<rparr>, st')))"

text \<open>
  \<open>addTask()\<close>. \<open>txt\<close> is the trimmed value of the input box and \<open>prio\<close> the value of the
  select box; \<open>newId\<close> is the result of \<open>generateId()\<close>. An empty text only shows a popup.
\<close>

record add_reads =
  nowCreatedAt :: int
  nowUpdated :: int
  nowStored :: int
  nowCreatedEvent :: int

definition addTask ::
  "add_reads \<Rightarrow> string \<Rightarrow> string \<Rightarrow> string \<Rightarrow> my_plan_app \<times> local_storage
     \<Rightarrow> my_plan_app \<times> local_storage" where
  "addTask rd newId txt prio s =
     (let (app, st) = s in
      if txt = [] then s
      else
        (let t = \<lparr> task_id = newId, task_text = txt, priority = prio, completed = False,
                   createdAt = nowCreatedAt rd, updatedAt = nowUpdated rd,
                   completedAt = Absent \<rparr>;
             ts' = tasks app @ [t];
             (saved, st') = saveTasks (nowStored rd) (map task_json ts') st;
             nm' = updateUserBehaviorData (nowCreatedEvent rd) ''task_created'' no_data
                     (notificationManager app)
         in (app\<lparr> tasks := ts', notificationManager := nm' \<rparr>, st')))"

text \<open>
  The callback of the inactivity poller of \<open>setupUserActivityListener\<close>, run every minute:
  \<open>now\<close> is its own clock read, \<open>nowB\<close> the one inside \<open>updateUserBehaviorData\<close>.
\<close>

definition inactivityPoll :: "int \<Rightarrow> int \<Rightarrow> notification_manager \<Rightarrow> notification_manager" where
  "inactivityPoll now nowB nm =
     (let inactive = now - userActiveTime nm
      in if inactive > 300000
         then updateUserBehaviorData nowB ''user_inactive''
                \<lparr> taskCreatedTime = None, inactiveTime = Some inactive \<rparr> nm
         else nm)"

section \<open>Predicates of the properties and example inputs\<close>

text \<open>
  \<open>before a b\<close>: the comparator does not put \<open>a\<close> after \<open>b\<close>.
\<close>

definition before :: "task \<Rightarrow> task \<Rightarrow> bool" where
  "before a b = (compareTasks a b \<le> 0)"

text \<open>
  \<open>tasksIsList importData\<close>: the \<open>tasks\<close> property of the payload can be read and is an
  array, by the source's own test \<open>Array.isArray\<close>.
\<close>

definition tasksIsList :: "json \<Rightarrow> bool" where
  "tasksIsList importData =
     (case property ''tasks'' importData of Inl e \<Rightarrow> False | Inr v \<Rightarrow> isArray v)"

definition updatedAtOf :: "string \<Rightarrow> my_plan_app \<times> local_storage \<Rightarrow> int option" where
  "updatedAtOf tid s = map_option updatedAt (find_task tid (tasks (fst s)))"

text \<open>What the notification element shows: its text and its classes.\<close>

definition shownBanner :: "world \<Rightarrow> (message option \<times> string list) option" where
  "shownBanner w =
     map_option (\<lambda>el. (text_child el, classes el)) (notification (fst w))"

text \<open>Concrete inputs, for the witnesses and counterexamples below.\<close>

definition example_element :: notification_element where
  "example_element =
     \<lparr> classes = [''unified-notification''], displayed = False,
       text_child = Some InitialText, icon_child = Some [''notification-icon''],
       close_child = Some True \<rparr>"

definition example_page :: page where
  "example_page = \<lparr> notification = Some example_element, hideTimeouts = [] \<rparr>"

definition example_manager :: notification_manager where
  "example_manager = constructor 1000000 1000000"

definition example_world :: world where
  "example_world = (example_page, example_manager)"

definition never_today :: "int \<Rightarrow> bool" where
  "never_today t = False"

definition smart_reads_at :: "nat \<Rightarrow> int \<Rightarrow> real \<Rightarrow> smart_reads" where
  "smart_reads_at hour now r =
     \<lparr> hourS = hour, isTodayS = never_today, nowS = now, randomS = r,
       messageS = \<lparr> hourM = hour, randomQuote = r \<rparr>, pickS = r \<rparr>"

definition periodic_reads_at :: "nat \<Rightarrow> int \<Rightarrow> real \<Rightarrow> periodic_reads" where
  "periodic_reads_at hour now r =
     \<lparr> nowActive = now, nowCooldown = now, isTodayP = never_today, hourT = hour,
       probabilityP = \<lparr> nowSession = now, nowCompletion = now, hourP = hour \<rparr>,
       randomP = r, messageP = \<lparr> hourM = hour, randomQuote = r \<rparr>, pickP = r,
       nowStamp = now \<rparr>"

definition example_task :: "string \<Rightarrow> string \<Rightarrow> bool \<Rightarrow> int \<Rightarrow> task" where
  "example_task tid prio done created =
     \<lparr> task_id = tid, task_text = ''write report'', priority = prio, completed = done,
       createdAt = created, updatedAt = created,
       completedAt = (if done then Time created else Absent) \<rparr>"

definition example_tasks :: "task list" where
  "example_tasks =
     [example_task ''a'' ''important'' True 1000,
      example_task ''b'' ''important'' False 2000,
      example_task ''c'' ''daily'' False 3000,
      example_task ''d'' ''important'' False 5000]"

definition example_app :: "task list \<Rightarrow> my_plan_app" where
  "example_app ts =
     \<lparr> tasks = ts, currentFilter = ''all'', editingTaskId = None,
       notificationManager = example_manager \<rparr>"

definition toggle_reads_at :: "int \<Rightarrow> toggle_reads" where
  "toggle_reads_at now =
     \<lparr> nowCompletedAt = now, nowBehavior = now, nowUpdatedAt = now, nowSaved = now \<rparr>"

definition open_storage :: local_storage where
  "open_storage = \<lparr> items = Map.empty, refuses = (\<lambda>k v. False) \<rparr>"

definition full_storage :: local_storage where
  "full_storage = \<lparr> items = Map.empty, refuses = (\<lambda>k v. True) \<rparr>"

definition motivation_page :: page where
  "motivation_page =
     \<lparr> notification =
         Some (example_element\<lparr> classes := [''unified-notification'', ''motivation''],
                               text_child := Some (TimeMessage Night 0) \<rparr>),
       hideTimeouts = [] \<rparr>"

section \<open>The engagement score\<close>

lemma update_keeps_range:
  "score_in_range nm \<Longrightarrow> score_in_range (updateUserBehaviorData now action data nm)"
  by (auto simp add: updateUserBehaviorData_def score_in_range_def score_def Let_def
      min_def max_def split: option.splits)

lemma updates_keep_range:
  "score_in_range nm \<Longrightarrow> score_in_range (updates calls nm)"
  by (induction calls nm rule: updates.induct) (simp_all add: update_keeps_range)

lemma score_step:
  "score (updateUserBehaviorData now action data nm) =
     (if action = ''taskCompleted'' then min (score nm + 0.1) 1.0
      else if action = ''taskCreated'' then min (score nm + 0.05) 1.0
      else if action = ''userInactive'' then max (score nm - 0.02) 0.1
      else score nm)"
  by (simp add: updateUserBehaviorData_def score_def Let_def split: option.splits)

lemma unknown_action_ignored:
  "action \<noteq> ''taskCompleted'' \<Longrightarrow> action \<noteq> ''taskCreated'' \<Longrightarrow>
   action \<noteq> ''userInactive'' \<Longrightarrow> updateUserBehaviorData now action data nm = nm"
  by (simp add: updateUserBehaviorData_def)

text \<open>
  Claim C10. The engagement score is 0.5 after the constructor and, after any finite
  sequence of calls of \<open>updateUserBehaviorData\<close> with any action strings and any data, lies
  in the closed interval from 0.1 to 1.0. A single call adds 0.1 or 0.05 and caps at 1.0,
  or subtracts 0.02 and floors at 0.1, or (any other action string) leaves the score as it is.
\<close>

theorem engagement_score_stays_in_range:
  "score (constructor t0 t1) = 0.5
   \<and> 0.1 \<le> score (updates calls (constructor t0 t1))
   \<and> score (updates calls (constructor t0 t1)) \<le> 1.0
   \<and> score (updateUserBehaviorData now action data nm) =
       (if action = ''taskCompleted'' then min (score nm + 0.1) 1.0
        else if action = ''taskCreated'' then min (score nm + 0.05) 1.0
        else if action = ''userInactive'' then max (score nm - 0.02) 0.1
        else score nm)"
proof -
  have start: "score (constructor t0 t1) = 0.5"
    by (simp add: constructor_def score_def)
  then have "score_in_range (constructor t0 t1)"
    by (simp add: score_in_range_def)
  then have "score_in_range (updates calls (constructor t0 t1))"
    by (rule updates_keep_range)
  then have "0.1 \<le> score (updates calls (constructor t0 t1))
       \<and> score (updates calls (constructor t0 t1)) \<le> 1.0"
    by (simp add: score_in_range_def)
  with start score_step show ?thesis by blast
qed

theorem engagement_score_stays_in_range_witness:
  "score (updates [(5, ''userInactive'', no_data), (6, ''taskCompleted'', no_data),
                   (7, ''task_completed'', no_data)] (constructor 0 0)) = 0.58
   \<and> 0.1 \<le> score (updates [(5, ''userInactive'', no_data), (6, ''taskCompleted'', no_data),
                   (7, ''task_completed'', no_data)] (constructor 0 0))
   \<and> score (updates [(5, ''userInactive'', no_data), (6, ''taskCompleted'', no_data),
                   (7, ''task_completed'', no_data)] (constructor 0 0)) \<le> 1.0"
proof -
  have "score (updates [(5, ''userInactive'', no_data), (6, ''taskCompleted'', no_data),
                   (7, ''task_completed'', no_data)] (constructor 0 0)) = 0.58"
    by (simp add: score_step) (simp add: constructor_def score_def)
  with engagement_score_stays_in_range
         [of 0 0 "[(5, ''userInactive'', no_data), (6, ''taskCompleted'', no_data),
                   (7, ''task_completed'', no_data)]" 0 "''x''" no_data "constructor 0 0"]
  show ?thesis by blast
qed

text \<open>
  Claim C1. The claim: recording the events the application dispatches, \<open>'task_completed'\<close>
  from \<open>toggleTask\<close>, \<open>'task_created'\<close> from \<open>addTask\<close> and \<open>'user_inactive'\<close> from the
  inactivity poller, raises the score by 0.1 or 0.05 or lowers it by 0.02. The code: the
  \<open>switch\<close> of \<open>updateUserBehaviorData\<close> has the cases \<open>'taskCompleted'\<close>, \<open>'taskCreated'\<close> and
  \<open>'userInactive'\<close>, so each of the three dispatched calls leaves the whole manager, the
  score and the completion count with it, as it was.
\<close>

theorem dispatched_events_change_nothing:
  "notificationManager (fst (toggleTask rd tid (app, st))) = notificationManager app
   \<and> notificationManager (fst (addTask ra newId txt prio (app, st))) = notificationManager app
   \<and> inactivityPoll now nowB nm = nm
   \<and> score (notificationManager (fst (toggleTask (toggle_reads_at 2000) ''a''
         (example_app [example_task ''a'' ''general'' False 1000], open_storage)))) = 0.5
   \<and> tasksCompletedInSession (userBehaviorData (notificationManager (fst
         (toggleTask (toggle_reads_at 2000) ''a''
         (example_app [example_task ''a'' ''general'' False 1000], open_storage))))) = 0"
proof -
  have toggle: "\<And>rd tid app st.
      notificationManager (fst (toggleTask rd tid (app, st))) = notificationManager app"
    by (simp add: toggleTask_def unknown_action_ignored Let_def split_beta
        split: option.splits)
  have add: "notificationManager (fst (addTask ra newId txt prio (app, st)))
      = notificationManager app"
    by (simp add: addTask_def unknown_action_ignored Let_def split_beta)
  have poll: "inactivityPoll now nowB nm = nm"
    by (simp add: inactivityPoll_def unknown_action_ignored Let_def)
  have fresh: "score example_manager = 0.5
      \<and> tasksCompletedInSession (userBehaviorData example_manager) = 0"
    by (simp add: example_manager_def constructor_def score_def)
  show ?thesis
    using toggle add poll fresh by (simp add: example_app_def)
qed

section \<open>The motivation probability\<close>

lemma clamp_bounds: "(0.1::real) \<le> min (max x 0.1) 0.9 \<and> min (max x 0.1) 0.9 \<le> 0.9"
  by (simp add: min_def max_def)

lemma calculate_bounds:
  "0.1 \<le> calculateSmartMotivationProbability rd nm u c tod
   \<and> calculateSmartMotivationProbability rd nm u c tod \<le> 0.9"
  unfolding calculateSmartMotivationProbability_def Let_def by (rule clamp_bounds)

lemma smartProbability_bounds:
  "0.1 \<le> smartProbability tod u c \<and> smartProbability tod u c \<le> 0.9"
  by (simp add: smartProbability_def)

text \<open>
  Claim C4. For every number of uncompleted tasks and of tasks completed today, every
  state of the manager (engagement score, session start, last completion, motivations
  shown), every clock read and every hour, the probability that
  \<open>calculateSmartMotivationProbability\<close> returns lies between 0.1 and 0.9, and so does the
  probability that \<open>showSmartNotification\<close> compares its random sample with.
\<close>

theorem motivation_probability_clamped:
  "0.1 \<le> calculateSmartMotivationProbability rd nm u c tod
   \<and> calculateSmartMotivationProbability rd nm u c tod \<le> 0.9
   \<and> 0.1 \<le> smartProbability tod u c
   \<and> smartProbability tod u c \<le> 0.9"
  using calculate_bounds smartProbability_bounds by blast

theorem motivation_probability_clamped_witness:
  "calculateSmartMotivationProbability
       \<lparr> nowSession = 1000000, nowCompletion = 1000000, hourP = 23 \<rparr>
       example_manager 20 0 Night = 0.144
   \<and> 0.1 \<le> calculateSmartMotivationProbability
       \<lparr> nowSession = 1000000, nowCompletion = 1000000, hourP = 23 \<rparr>
       example_manager 20 0 Night
   \<and> smartProbability Night 20 0 = 0.45
   \<and> smartProbability Night 20 0 \<le> 0.9"
proof -
  have d: "userBehaviorData example_manager =
         \<lparr> sessionStartTime = 1000000,
           tasksCompletedInSession = 0,
           motivationsShown = 0,
           lastTaskCompletionTime = 0,
           averageTaskCompletionTime = 0,
           userEngagementScore = 0.5 \<rparr>"
    by (simp add: example_manager_def constructor_def)
  have "calculateSmartMotivationProbability
       \<lparr> nowSession = 1000000, nowCompletion = 1000000, hourP = 23 \<rparr>
       example_manager 20 0 Night = 0.144"
    unfolding calculateSmartMotivationProbability_def d Let_def by simp
  moreover have "smartProbability Night 20 0 = 0.45"
    by (simp add: smartProbability_def)
  ultimately show ?thesis
    using motivation_probability_clamped
            [of "\<lparr> nowSession = 1000000, nowCompletion = 1000000, hourP = 23 \<rparr>"
                example_manager 20 0 Night]
    by simp
qed

section \<open>The cooldown\<close>

lemma show_keeps_last:
  "lastMotivationTime (snd (show_notification d w)) = lastMotivationTime (snd w)"
  by (cases w) (simp add: show_notification_def showTopNotification_def
      showMotivationMessage_def Let_def split: notification_type.splits option.splits)

lemma show_keeps_cooldown:
  "motivationCooldown (snd (show_notification d w)) = motivationCooldown (snd w)"
  by (cases w) (simp add: show_notification_def showTopNotification_def
      showMotivationMessage_def Let_def split: notification_type.splits option.splits)

lemma smart_emits:
  assumes "emitsMotivation (fst (showSmartNotification rd ts w))"
  shows "lastMotivationTime (snd (snd (showSmartNotification rd ts w))) = nowS rd
       \<and> motivationCooldown (snd w) \<le> nowS rd - lastMotivationTime (snd w)"
proof (cases "fst (smartBanner (getTimeOfDay (hourS rd)) ts)")
  case None
  with assms show ?thesis
    by (simp add: showSmartNotification_def emitsMotivation_def Let_def split_beta
        split: if_splits)
next
  case (Some m)
  with assms show ?thesis
    by (simp add: showSmartNotification_def emitsMotivation_def Let_def split_beta
        show_keeps_last show_keeps_cooldown split: if_splits)
qed

lemma smart_keeps_cooldown:
  "motivationCooldown (snd (snd (showSmartNotification rd ts w))) = motivationCooldown (snd w)"
  by (simp add: showSmartNotification_def Let_def split_beta
      show_keeps_cooldown split: option.splits)

lemma periodic_emits:
  assumes "emitsMotivation (fst (checkAndShowPeriodicMotivation rd app_tasks w))"
  shows "lastMotivationTime (snd (snd (checkAndShowPeriodicMotivation rd app_tasks w)))
           = nowStamp rd
       \<and> motivationCooldown (snd w) \<le> nowCooldown rd - lastMotivationTime (snd w)"
  using assms
  by (auto simp add: checkAndShowPeriodicMotivation_def emitsMotivation_def Let_def
      split_beta split: if_splits)

lemma periodic_keeps_cooldown:
  "motivationCooldown (snd (snd (checkAndShowPeriodicMotivation rd app_tasks w)))
     = motivationCooldown (snd w)"
  by (simp add: checkAndShowPeriodicMotivation_def Let_def split_beta show_keeps_cooldown)

lemma evaluate_emits:
  assumes "emitsMotivation (fst (evaluate e w))"
  shows "lastMotivationTime (snd (snd (evaluate e w))) = stampTime e
       \<and> motivationCooldown (snd w) \<le> checkTime e - lastMotivationTime (snd w)"
  using assms by (cases e) (simp_all add: smart_emits periodic_emits)

lemma evaluate_keeps_cooldown:
  "motivationCooldown (snd (snd (evaluate e w))) = motivationCooldown (snd w)"
  by (cases e) (simp_all add: smart_keeps_cooldown periodic_keeps_cooldown)

text \<open>
  Claim C5. Two consecutive encouragement evaluations, each a call of
  \<open>showSmartNotification\<close> or of \<open>checkAndShowPeriodicMotivation\<close> with any tasks and any
  random samples: when the clock read the second one tests the cooldown with is less than
  \<open>motivationCooldown\<close> (30 seconds) after the clock read the first one stores in
  \<open>lastMotivationTime\<close>, they do not both show a motivation message. The time of a call is
  the clock read it makes for the cooldown: \<open>showSmartNotification\<close> makes one read for the
  test and the stamp, \<open>checkAndShowPeriodicMotivation\<close> tests with one read and stamps with
  a later one.
\<close>

theorem cooldown_blocks_second_motivation:
  assumes "checkTime e2 - stampTime e1 < motivationCooldown (snd w)"
  shows "\<not> (emitsMotivation (fst (evaluate e1 w))
            \<and> emitsMotivation (fst (evaluate e2 (snd (evaluate e1 w)))))"
proof
  assume both: "emitsMotivation (fst (evaluate e1 w))
            \<and> emitsMotivation (fst (evaluate e2 (snd (evaluate e1 w))))"
  let ?w1 = "snd (evaluate e1 w)"
  from both have stamp: "lastMotivationTime (snd ?w1) = stampTime e1"
    using evaluate_emits by blast
  from both have "motivationCooldown (snd ?w1) \<le> checkTime e2 - lastMotivationTime (snd ?w1)"
    using evaluate_emits by blast
  then have "motivationCooldown (snd w) \<le> checkTime e2 - stampTime e1"
    by (simp add: stamp evaluate_keeps_cooldown)
  with assms show False by simp
qed

lemma example_first_emits:
  "emitsMotivation (fst (evaluate (Smart (smart_reads_at 10 1000000 0.5) []) example_world))"
  by (simp add: showSmartNotification_def emitsMotivation_def smart_reads_at_def
      example_world_def example_manager_def constructor_def getTimeOfDay_def
      smartBanner_def uncompleted_def important_def completedToday_def
      smartProbability_def getMotivationMessages_def pool_def Let_def split_beta)

theorem cooldown_blocks_second_motivation_witness:
  "checkTime (Periodic (periodic_reads_at 10 1010000 0) None)
       - stampTime (Smart (smart_reads_at 10 1000000 0.5) [])
     < motivationCooldown (snd example_world)
   \<and> emitsMotivation (fst (evaluate (Smart (smart_reads_at 10 1000000 0.5) []) example_world))
   \<and> \<not> emitsMotivation (fst (evaluate (Periodic (periodic_reads_at 10 1010000 0) None)
          (snd (evaluate (Smart (smart_reads_at 10 1000000 0.5) []) example_world))))"
proof -
  have near: "checkTime (Periodic (periodic_reads_at 10 1010000 0) None)
       - stampTime (Smart (smart_reads_at 10 1000000 0.5) [])
     < motivationCooldown (snd example_world)"
    by (simp add: periodic_reads_at_def smart_reads_at_def example_world_def
        example_manager_def constructor_def)
  from cooldown_blocks_second_motivation [OF near] example_first_emits near
  show ?thesis by blast
qed

section \<open>The status banner and the converted banner\<close>

lemma important_pending_nonempty:
  "t \<in> set ts \<Longrightarrow> \<not> completed t \<Longrightarrow> priority t = ''important'' \<Longrightarrow>
   important (uncompleted ts) \<noteq> []"
  by (auto simp add: important_def uncompleted_def filter_empty_conv)

lemma important_are_pending: "important (uncompleted ts) \<noteq> [] \<Longrightarrow> uncompleted ts \<noteq> []"
  by (auto simp add: important_def)

lemma smartBanner_night:
  "uncompleted ts \<noteq> [] \<Longrightarrow>
   smartBanner Night ts = (Some (NightPending (length (uncompleted ts))), High)"
  by (simp add: smartBanner_def Let_def)

lemma smart_first_directive:
  "smartBanner (getTimeOfDay (hourS rd)) ts = (Some m, u) \<Longrightarrow>
   take 1 (fst (showSmartNotification rd ts w)) =
     [\<lparr> d_message = m, d_type = Top, d_urgency = u, d_duration = 0, d_closable = True \<rparr>]"
  by (simp add: showSmartNotification_def Let_def split_beta)

text \<open>
  Claim C3. For every task list with at least one pending important task, in a call of
  \<open>showSmartNotification\<close> whose hour is classified as night, the banner shown (the first
  call of \<open>show\<close>) is the high-urgency night message with the number of pending tasks, and
  the banner rule does not give the medium-urgency message of the important tasks: the
  night rule is tested first.
\<close>

theorem night_rule_before_important_rule:
  assumes "getTimeOfDay (hourS rd) = Night"
    and "\<exists>t \<in> set ts. \<not> completed t \<and> priority t = ''important''"
  shows "take 1 (fst (showSmartNotification rd ts w)) =
           [\<lparr> d_message = NightPending (length (uncompleted ts)), d_type = Top,
              d_urgency = High, d_duration = 0, d_closable = True \<rparr>]
         \<and> smartBanner (getTimeOfDay (hourS rd)) ts
             = (Some (NightPending (length (uncompleted ts))), High)
         \<and> smartBanner (getTimeOfDay (hourS rd)) ts
             \<noteq> (Some (ImportantWaiting (length (important (uncompleted ts)))), Medium)"
proof -
  from assms(2) have "important (uncompleted ts) \<noteq> []"
    using important_pending_nonempty by blast
  then have "uncompleted ts \<noteq> []" by (rule important_are_pending)
  then have banner: "smartBanner (getTimeOfDay (hourS rd)) ts
      = (Some (NightPending (length (uncompleted ts))), High)"
    using assms(1) by (simp add: smartBanner_night)
  from smart_first_directive [OF banner] banner show ?thesis by simp
qed

theorem night_rule_before_important_rule_witness:
  "getTimeOfDay (hourS (smart_reads_at 23 1000000 0.95)) = Night
   \<and> \<not> completed (example_task ''a'' ''important'' False 1000)
   \<and> priority (example_task ''a'' ''important'' False 1000) = ''important''
   \<and> take 1 (fst (showSmartNotification (smart_reads_at 23 1000000 0.95)
                   [example_task ''a'' ''important'' False 1000] example_world)) =
           [\<lparr> d_message = NightPending 1, d_type = Top,
              d_urgency = High, d_duration = 0, d_closable = True \<rparr>]"
proof -
  have night: "getTimeOfDay (hourS (smart_reads_at 23 1000000 0.95)) = Night"
    by (simp add: smart_reads_at_def getTimeOfDay_def)
  have pending: "\<exists>t \<in> set [example_task ''a'' ''important'' False 1000].
      \<not> completed t \<and> priority t = ''important''"
    by (simp add: example_task_def)
  have count: "length (uncompleted [example_task ''a'' ''important'' False 1000]) = 1"
    by (simp add: uncompleted_def example_task_def)
  from night_rule_before_important_rule [OF night pending, of example_world] night count
  show ?thesis by (simp add: example_task_def)
qed

lemma convert_writes:
  assumes "notification pg = Some el" and "''motivation'' \<in> set (classes el)"
    and "text_child el = Some old"
  shows "\<exists>el'. notification (fst (convertMotivationToTopNotification hour (Some ts) (pg, nm)))
               = Some el'
     \<and> text_child el' = Some (fst (convertedBanner (getTimeOfDay hour) ts))
     \<and> classes el' = [''unified-notification'', ''show'']
            @ urgencyClasses (snd (convertedBanner (getTimeOfDay hour) ts))"
  using assms by (simp add: convertMotivationToTopNotification_def Let_def split_beta)

lemma convertedBanner_rules:
  "convertedBanner tod ts =
     (if uncompleted ts = [] then (AllCompleted, Normal)
      else if important (uncompleted ts) \<noteq> []
        then (ImportantRemaining (length (important (uncompleted ts))), Medium)
      else (GreetingPending tod (length (uncompleted ts)), Normal))"
  by (simp add: convertedBanner_def Let_def)

text \<open>
  Claim C2, as stated, fails. At hour 23, classified as night, with one pending task of
  priority \<open>general\<close>, the conversion of a motivation message writes the greeting of the time
  of day with normal urgency (no class \<open>urgent\<close>), while the banner rules of
  \<open>showSmartNotification\<close> give the high-urgency night message for the same tasks and hour.
\<close>

theorem converted_banner_night_counterexample:
  "getTimeOfDay 23 = Night
   \<and> shownBanner (convertMotivationToTopNotification 23
           (Some [example_task ''a'' ''general'' False 1000])
           (motivation_page, example_manager))
       = Some (Some (GreetingPending Night 1), [''unified-notification'', ''show''])
   \<and> smartBanner (getTimeOfDay 23) [example_task ''a'' ''general'' False 1000]
       = (Some (NightPending 1), High)"
  by (simp add: getTimeOfDay_def convertMotivationToTopNotification_def motivation_page_def
      example_element_def example_task_def convertedBanner_def smartBanner_def
      uncompleted_def important_def urgencyClasses_def shownBanner_def Let_def)

text \<open>
  Claim C2, amended. When the timer of a motivation message fires and the element still has
  the class \<open>motivation\<close>, the text written is chosen by the rules of the conversion itself on
  the current tasks, not by the banner rules of \<open>showSmartNotification\<close>: with no pending
  task the normal-urgency all-done message; else, with a pending important task, the
  medium-urgency message with the number of pending important tasks; else the normal-urgency
  greeting of the time of day with the number of pending tasks. So at a night hour with a
  pending task the banner is the medium-urgency or the normal-urgency one; it is never the
  night message, and its urgency is never high.
\<close>

theorem converted_banner_own_rules:
  assumes "notification pg = Some el" and "''motivation'' \<in> set (classes el)"
    and "text_child el = Some old"
  shows "\<exists>el'. notification (fst (convertMotivationToTopNotification hour (Some ts) (pg, nm)))
               = Some el'
     \<and> text_child el' = Some (fst (convertedBanner (getTimeOfDay hour) ts))
     \<and> classes el' = [''unified-notification'', ''show'']
            @ urgencyClasses (snd (convertedBanner (getTimeOfDay hour) ts))
     \<and> convertedBanner (getTimeOfDay hour) ts =
         (if uncompleted ts = [] then (AllCompleted, Normal)
          else if important (uncompleted ts) \<noteq> []
            then (ImportantRemaining (length (important (uncompleted ts))), Medium)
          else (GreetingPending (getTimeOfDay hour) (length (uncompleted ts)), Normal))
     \<and> fst (convertedBanner (getTimeOfDay hour) ts) \<noteq> NightPending (length (uncompleted ts))
     \<and> snd (convertedBanner (getTimeOfDay hour) ts) \<noteq> High"
proof -
  have own: "fst (convertedBanner (getTimeOfDay hour) ts) \<noteq> NightPending (length (uncompleted ts))
     \<and> snd (convertedBanner (getTimeOfDay hour) ts) \<noteq> High"
    by (simp add: convertedBanner_rules)
  from convert_writes [OF assms, of hour ts nm] convertedBanner_rules [of "getTimeOfDay hour" ts]
    own
  show ?thesis by blast
qed

theorem converted_banner_own_rules_witness:
  "notification motivation_page
     = Some (example_element\<lparr> classes := [''unified-notification'', ''motivation''],
                             text_child := Some (TimeMessage Night 0) \<rparr>)
   \<and> convertedBanner (getTimeOfDay 23) [example_task ''a'' ''important'' False 1000]
       = (ImportantRemaining 1, Medium)
   \<and> (\<exists>el'. notification (fst (convertMotivationToTopNotification 23
                 (Some [example_task ''a'' ''important'' False 1000])
                 (motivation_page, example_manager))) = Some el'
        \<and> text_child el' = Some (ImportantRemaining 1)
        \<and> classes el' = [''unified-notification'', ''show'', ''warning''])"
proof -
  let ?el = "example_element\<lparr> classes := [''unified-notification'', ''motivation''],
                             text_child := Some (TimeMessage Night 0) \<rparr>"
  have page: "notification motivation_page = Some ?el"
    by (simp add: motivation_page_def)
  have cls: "''motivation'' \<in> set (classes ?el)" by simp
  have child: "text_child ?el = Some (TimeMessage Night 0)" by simp
  have banner: "convertedBanner (getTimeOfDay 23) [example_task ''a'' ''important'' False 1000]
       = (ImportantRemaining 1, Medium)"
    by (simp add: convertedBanner_def uncompleted_def important_def example_task_def Let_def)
  from converted_banner_own_rules [OF page cls child, of 23
         "[example_task ''a'' ''important'' False 1000]" example_manager]
  obtain el' where
    el: "notification (fst (convertMotivationToTopNotification 23
                 (Some [example_task ''a'' ''important'' False 1000])
                 (motivation_page, example_manager))) = Some el'"
    and written: "text_child el' = Some (fst (convertedBanner (getTimeOfDay 23)
                 [example_task ''a'' ''important'' False 1000]))"
    and styled: "classes el' = [''unified-notification'', ''show'']
            @ urgencyClasses (snd (convertedBanner (getTimeOfDay 23)
                 [example_task ''a'' ''important'' False 1000]))"
    by blast
  from written banner have "text_child el' = Some (ImportantRemaining 1)" by simp
  moreover from styled banner
  have "classes el' = [''unified-notification'', ''show'', ''warning'']"
    by (simp add: urgencyClasses_def)
  ultimately show ?thesis using page banner el by blast
qed

section \<open>Import\<close>

lemma not_list_rejected:
  assumes "\<not> tasksIsList importData"
  shows "importBody (Inr importData) now st = Inl TypeError
       \<or> importBody (Inr importData) now st = Inl FormatError"
proof (cases "property ''tasks'' importData")
  case (Inl e)
  then have "e = TypeError" by (cases importData) simp_all
  with Inl show ?thesis by (simp add: importBody_def)
next
  case (Inr v)
  with assms have "\<not> isArray v" by (simp add: tasksIsList_def)
  with Inr show ?thesis by (simp add: importBody_def)
qed

lemma saveTasks_failed:
  "\<not> fst (saveTasks now ts st) \<Longrightarrow> snd (saveTasks now ts st) = st"
  by (simp add: saveTasks_def Let_def split: sum.splits)

lemma settings_readable:
  "property ''tasks'' d = Inr (Some v) \<Longrightarrow> \<exists>s. property ''settings'' d = Inr s"
  by (cases d) simp_all

text \<open>
  Claim C6. For every payload that parses and whose \<open>tasks\<close> property is missing or is not
  an array, \<open>importTasks\<close> returns false and leaves the storage as it was: the stored task
  collection and the stored settings are the ones from before the call.
\<close>

theorem importTasks_rejects_non_list:
  assumes "\<not> tasksIsList importData"
  shows "importTasks (Inr importData) now st = (False, st)
       \<and> loadTasks (snd (importTasks (Inr importData) now st)) = loadTasks st
       \<and> getSettings (snd (importTasks (Inr importData) now st)) = getSettings st"
proof -
  from not_list_rejected [OF assms, of now st]
  have "importTasks (Inr importData) now st = (False, st)"
    by (auto simp add: importTasks_def)
  then show ?thesis by simp
qed

theorem importTasks_rejects_non_list_witness:
  "\<not> tasksIsList (JObj [(''tasks'', JStr ''none''), (''settings'', JObj [])])
   \<and> \<not> tasksIsList (JObj [(''settings'', JObj [])])
   \<and> importTasks (Inr (JObj [(''tasks'', JStr ''none''), (''settings'', JObj [])])) 7
        open_storage = (False, open_storage)"
proof -
  have bad: "\<not> tasksIsList (JObj [(''tasks'', JStr ''none''), (''settings'', JObj [])])"
    by (simp add: tasksIsList_def)
  have missing: "\<not> tasksIsList (JObj [(''settings'', JObj [])])"
    by (simp add: tasksIsList_def)
  from importTasks_rejects_non_list [OF bad, of 7 open_storage] bad missing
  show ?thesis by blast
qed

text \<open>
  Claim C9. For every payload that parses and whose \<open>tasks\<close> property is an array,
  \<open>importTasks\<close> returns true, whatever \<open>saveTasks\<close> returned; and when \<open>saveTasks\<close> returned
  false (the write was refused), the settings are not written either: the storage is the
  one from before the call, and the result is still true.
\<close>

theorem importTasks_true_despite_failed_save:
  assumes "property ''tasks'' importData = Inr (Some (JArr ts))"
  shows "fst (importTasks (Inr importData) now st)
       \<and> (\<not> fst (saveTasks now ts st) \<longrightarrow>
            importTasks (Inr importData) now st = (True, st))"
proof -
  obtain s where s: "property ''settings'' importData = Inr s"
    using settings_readable [OF assms] by blast
  show ?thesis
    using assms s saveTasks_failed [of now ts st]
    by (cases "saveTasks now ts st")
       (auto simp add: importTasks_def importBody_def Let_def split: option.splits)
qed

theorem importTasks_true_despite_failed_save_witness:
  "property ''tasks'' (JObj [(''tasks'', JArr [JStr ''t'']), (''settings'', JObj [])])
     = Inr (Some (JArr [JStr ''t'']))
   \<and> \<not> fst (saveTasks 7 [JStr ''t''] full_storage)
   \<and> importTasks (Inr (JObj [(''tasks'', JArr [JStr ''t'']), (''settings'', JObj [])])) 7
        full_storage = (True, full_storage)"
proof -
  have arr: "property ''tasks'' (JObj [(''tasks'', JArr [JStr ''t'']), (''settings'', JObj [])])
     = Inr (Some (JArr [JStr ''t'']))"
    by simp
  have refused: "\<not> fst (saveTasks 7 [JStr ''t''] full_storage)"
    by (simp add: saveTasks_def setItem_def full_storage_def)
  from importTasks_true_despite_failed_save [OF arr, of 7 full_storage] arr refused
  show ?thesis by blast
qed

section \<open>Grouping by priority\<close>

lemma before_iff:
  "before a b = ((\<not> completed a \<and> completed b)
                \<or> (completed a = completed b \<and> createdAt b \<le> createdAt a))"
  by (auto simp add: before_def compareTasks_def)

lemma before_total: "\<not> before a b \<Longrightarrow> before b a"
  by (auto simp add: before_iff)

lemma before_trans: "before a b \<Longrightarrow> before b c \<Longrightarrow> before a c"
  by (auto simp add: before_iff)

lemma mset_insert_by: "mset (insert_by cmp x xs) = add_mset x (mset xs)"
  by (induction xs) simp_all

lemma mset_sort_by: "mset (sort_by cmp xs) = mset xs"
  by (induction xs) (simp_all add: mset_insert_by)

lemma set_insert_by: "set (insert_by cmp x xs) = insert x (set xs)"
  by (induction xs) auto

lemma set_sort_by: "set (sort_by cmp xs) = set xs"
  by (induction xs) (simp_all add: set_insert_by)

lemma sorted_insert_by:
  "sorted_wrt before xs \<Longrightarrow> sorted_wrt before (insert_by compareTasks x xs)"
proof (induction xs)
  case Nil
  then show ?case by simp
next
  case (Cons y ys)
  show ?case
  proof (cases "compareTasks x y \<le> 0")
    case True
    then have xy: "before x y" by (simp add: before_def)
    have "\<forall>z \<in> set ys. before x z"
      using Cons.prems xy before_trans by auto
    with True xy Cons.prems show ?thesis by simp
  next
    case False
    then have "before y x" using before_total by (simp add: before_def)
    with False Cons show ?thesis by (simp add: set_insert_by)
  qed
qed

lemma sorted_sort_by: "sorted_wrt before (sort_by compareTasks xs)"
  by (induction xs) (simp_all add: sorted_insert_by)

lemma bucket_eq:
  "bucket p ts = (if p \<in> set priorities
                  then sort_by compareTasks (filter (\<lambda>t. priority t = p) ts) else [])"
  by (simp add: bucket_def getTasksByPriority_def priorities_def)

lemma set_bucket:
  "set (bucket p ts) = (if p \<in> set priorities then {t \<in> set ts. priority t = p} else {})"
  by (simp add: bucket_eq set_sort_by)

lemma mset_buckets:
  "\<forall>t \<in> set ts. priority t \<in> set priorities \<Longrightarrow>
   mset (concat (map snd (getTasksByPriority ts))) = mset ts"
proof (induction ts)
  case Nil
  then show ?case by (simp add: getTasksByPriority_def priorities_def)
next
  case (Cons t ts)
  then have "mset (concat (map snd (getTasksByPriority ts))) = mset ts" by simp
  moreover have "priority t \<in> set priorities" using Cons.prems by simp
  ultimately show ?case
    by (auto simp add: getTasksByPriority_def priorities_def mset_sort_by)
qed

text \<open>
  Claim C7. For every task list in which the priority of each task is one of
  \<open>important\<close>, \<open>daily\<close>, \<open>secondary\<close>, \<open>general\<close>: every task is in exactly one bucket of
  \<open>getTasksByPriority\<close>, and the buckets together hold the tasks of the list, each as often
  as the list does; inside each bucket no completed task comes before an incomplete one,
  and of two tasks with the same completed flag the earlier one has the later (or the same)
  \<open>createdAt\<close>.
\<close>

theorem getTasksByPriority_partitions_and_sorts:
  assumes "\<forall>t \<in> set ts. priority t \<in> set priorities"
  shows "(\<forall>t \<in> set ts. \<exists>!p. t \<in> set (bucket p ts))
       \<and> mset (concat (map snd (getTasksByPriority ts))) = mset ts
       \<and> (\<forall>p \<in> set priorities.
            sorted_wrt (\<lambda>a b. \<not> (completed a \<and> \<not> completed b)
                             \<and> (completed a = completed b \<longrightarrow> createdAt b \<le> createdAt a))
              (bucket p ts))"
proof (intro conjI ballI)
  fix t assume "t \<in> set ts"
  with assms have "priority t \<in> set priorities" by simp
  with \<open>t \<in> set ts\<close> have "t \<in> set (bucket (priority t) ts)"
    by (simp add: set_bucket)
  moreover have "\<And>p. t \<in> set (bucket p ts) \<Longrightarrow> p = priority t"
    by (simp add: set_bucket split: if_splits)
  ultimately show "\<exists>!p. t \<in> set (bucket p ts)" by blast
next
  show "mset (concat (map snd (getTasksByPriority ts))) = mset ts"
    using assms by (rule mset_buckets)
next
  fix p assume "p \<in> set priorities"
  have "sorted_wrt before (bucket p ts)"
    by (simp add: bucket_eq sorted_sort_by)
  then show "sorted_wrt (\<lambda>a b. \<not> (completed a \<and> \<not> completed b)
                             \<and> (completed a = completed b \<longrightarrow> createdAt b \<le> createdAt a))
              (bucket p ts)"
    by (rule sorted_wrt_mono_rel [rotated]) (auto simp add: before_iff)
qed

lemma example_buckets:
  "bucket ''important'' example_tasks =
     [example_task ''d'' ''important'' False 5000,
      example_task ''b'' ''important'' False 2000,
      example_task ''a'' ''important'' True 1000]
   \<and> bucket ''daily'' example_tasks = [example_task ''c'' ''daily'' False 3000]
   \<and> bucket ''secondary'' example_tasks = []
   \<and> bucket ''general'' example_tasks = []"
  by (simp add: bucket_eq priorities_def example_tasks_def example_task_def compareTasks_def)

theorem getTasksByPriority_partitions_and_sorts_witness:
  "list_all (\<lambda>t. priority t \<in> set priorities) example_tasks
   \<and> bucket ''important'' example_tasks =
       [example_task ''d'' ''important'' False 5000,
        example_task ''b'' ''important'' False 2000,
        example_task ''a'' ''important'' True 1000]
   \<and> mset (concat (map snd (getTasksByPriority example_tasks))) = mset example_tasks
   \<and> (\<exists>!p. example_task ''c'' ''daily'' False 3000 \<in> set (bucket p example_tasks))"
proof -
  have ok: "\<forall>t \<in> set example_tasks. priority t \<in> set priorities"
    by (simp add: example_tasks_def example_task_def priorities_def)
  then have all: "list_all (\<lambda>t. priority t \<in> set priorities) example_tasks"
    by (simp add: list_all_iff)
  have "example_task ''c'' ''daily'' False 3000 \<in> set example_tasks"
    by (simp add: example_tasks_def)
  with getTasksByPriority_partitions_and_sorts [OF ok] all example_buckets
  show ?thesis by blast
qed

section \<open>Toggling a task\<close>

lemma find_update_first:
  "find_task tid ts = Some t \<Longrightarrow> task_id (f t) = tid \<Longrightarrow>
   find_task tid (update_first tid f ts) = Some (f t)"
  by (induction ts) (auto simp add: find_task_def)

lemma toggle_found:
  assumes "find_task tid (tasks app) = Some t"
  shows "find_task tid (tasks (fst (toggleTask rd tid (app, st)))) =
     Some (t\<lparr> completed := \<not> completed t,
              completedAt := (if \<not> completed t then Time (nowCompletedAt rd) else Null),
              updatedAt := nowUpdatedAt rd \<rparr>)"
proof -
  have "task_id t = tid"
    using assms by (auto simp add: find_task_def find_Some_iff)
  with assms show ?thesis
    by (simp add: toggleTask_def Let_def split_beta find_update_first)
qed

text \<open>
  Claim C8, as stated, fails in its last part. \<open>toggleTask\<close> writes the clock read of the
  call into \<open>updatedAt\<close>, so two toggles that read the same millisecond leave the same
  \<open>updatedAt\<close>: here both toggles read 2000, and \<open>updatedAt\<close> is 2000 after the first toggle
  and 2000 after the second, which is no strict increase.
\<close>

theorem toggle_same_reading_counterexample:
  "updatedAtOf ''a'' (toggleTask (toggle_reads_at 2000) ''a''
       (example_app [example_task ''a'' ''general'' False 1000], open_storage)) = Some 2000
   \<and> updatedAtOf ''a'' (toggleTask (toggle_reads_at 2000) ''a''
       (toggleTask (toggle_reads_at 2000) ''a''
         (example_app [example_task ''a'' ''general'' False 1000], open_storage))) = Some 2000"
proof -
  let ?t0 = "example_task ''a'' ''general'' False 1000"
  let ?s1 = "toggleTask (toggle_reads_at 2000) ''a'' (example_app [?t0], open_storage)"
  have f0: "find_task ''a'' (tasks (example_app [?t0])) = Some ?t0"
    by (simp add: find_task_def example_app_def example_task_def)
  from toggle_found [OF f0, of "toggle_reads_at 2000" open_storage]
  have u1: "updatedAtOf ''a'' ?s1 = Some 2000"
    by (simp add: updatedAtOf_def toggle_reads_at_def)
  from toggle_found [OF f0, of "toggle_reads_at 2000" open_storage]
  obtain t1 where f1: "find_task ''a'' (tasks (fst ?s1)) = Some t1" by blast
  from toggle_found [OF f1, of "toggle_reads_at 2000" "snd ?s1"]
  have "updatedAtOf ''a'' (toggleTask (toggle_reads_at 2000) ''a'' ?s1) = Some 2000"
    by (simp add: updatedAtOf_def toggle_reads_at_def)
  with u1 show ?thesis by blast
qed

text \<open>
  Claim C8, amended. For the task that \<open>toggleTask\<close> finds for an id (the first task with
  that id; with unique ids, any task of the collection), if it is incomplete, and for every
  pair of clock reads: after one toggle it is completed, with \<open>completedAt\<close> set; after a
  second toggle it is incomplete again with \<open>completedAt\<close> null, and nothing but
  \<open>completedAt\<close> and \<open>updatedAt\<close> differs from the task before the toggles; each toggle
  sets \<open>updatedAt\<close> to the clock read of that toggle. So \<open>updatedAt\<close> strictly increases
  with a toggle when the clock read of that toggle is strictly later than the \<open>updatedAt\<close>
  the task had before it.
\<close>

theorem toggle_twice_restores:
  assumes "find_task tid (tasks app) = Some t"
    and "\<not> completed t"
  shows "\<exists>t1 t2.
           find_task tid (tasks (fst (toggleTask r1 tid (app, st)))) = Some t1
         \<and> find_task tid (tasks (fst (toggleTask r2 tid (toggleTask r1 tid (app, st)))))
             = Some t2
         \<and> completed t1 \<and> completedAt t1 = Time (nowCompletedAt r1)
         \<and> \<not> completed t2 \<and> completedAt t2 = Null
         \<and> t2 = t\<lparr> completedAt := Null, updatedAt := nowUpdatedAt r2 \<rparr>
         \<and> updatedAt t1 = nowUpdatedAt r1 \<and> updatedAt t2 = nowUpdatedAt r2
         \<and> (updatedAt t < nowUpdatedAt r1 \<longrightarrow> updatedAt t < updatedAt t1)
         \<and> (nowUpdatedAt r1 < nowUpdatedAt r2 \<longrightarrow> updatedAt t1 < updatedAt t2)"
proof -
  let ?s1 = "toggleTask r1 tid (app, st)"
  let ?t1 = "t\<lparr> completed := \<not> completed t,
              completedAt := (if \<not> completed t then Time (nowCompletedAt r1) else Null),
              updatedAt := nowUpdatedAt r1 \<rparr>"
  have f1: "find_task tid (tasks (fst ?s1)) = Some ?t1"
    using assms(1) by (rule toggle_found)
  have "find_task tid (tasks (fst (toggleTask r2 tid (fst ?s1, snd ?s1)))) =
     Some (?t1\<lparr> completed := \<not> completed ?t1,
              completedAt := (if \<not> completed ?t1 then Time (nowCompletedAt r2) else Null),
              updatedAt := nowUpdatedAt r2 \<rparr>)"
    using f1 by (rule toggle_found)
  then have f2: "find_task tid (tasks (fst (toggleTask r2 tid ?s1))) =
     Some (t\<lparr> completed := False, completedAt := Null, updatedAt := nowUpdatedAt r2 \<rparr>)"
    using assms(2) by simp
  have same: "t\<lparr> completed := False, completedAt := Null, updatedAt := nowUpdatedAt r2 \<rparr>
      = t\<lparr> completedAt := Null, updatedAt := nowUpdatedAt r2 \<rparr>"
    using assms(2) by simp
  from f1 f2 same assms(2) show ?thesis by simp
qed

theorem toggle_twice_restores_witness:
  "find_task ''a'' (tasks (example_app [example_task ''a'' ''general'' False 1000]))
     = Some (example_task ''a'' ''general'' False 1000)
   \<and> \<not> completed (example_task ''a'' ''general'' False 1000)
   \<and> updatedAt (example_task ''a'' ''general'' False 1000) < nowUpdatedAt (toggle_reads_at 2000)
   \<and> nowUpdatedAt (toggle_reads_at 2000) < nowUpdatedAt (toggle_reads_at 3000)
   \<and> find_task ''a'' (tasks (fst (toggleTask (toggle_reads_at 3000) ''a''
       (toggleTask (toggle_reads_at 2000) ''a''
         (example_app [example_task ''a'' ''general'' False 1000], open_storage)))))
       = Some ((example_task ''a'' ''general'' False 1000)
                 \<lparr> completedAt := Null, updatedAt := 3000 \<rparr>)
   \<and> updatedAtOf ''a'' (toggleTask (toggle_reads_at 2000) ''a''
       (example_app [example_task ''a'' ''general'' False 1000], open_storage)) = Some 2000
   \<and> updatedAtOf ''a'' (toggleTask (toggle_reads_at 3000) ''a''
       (toggleTask (toggle_reads_at 2000) ''a''
         (example_app [example_task ''a'' ''general'' False 1000], open_storage))) = Some 3000"
proof -
  let ?t0 = "example_task ''a'' ''general'' False 1000"
  have f0: "find_task ''a'' (tasks (example_app [?t0])) = Some ?t0"
    by (simp add: find_task_def example_app_def example_task_def)
  have inc: "\<not> completed ?t0" by (simp add: example_task_def)
  have lt1: "updatedAt ?t0 < nowUpdatedAt (toggle_reads_at 2000)"
    by (simp add: example_task_def toggle_reads_at_def)
  have lt2: "nowUpdatedAt (toggle_reads_at 2000) < nowUpdatedAt (toggle_reads_at 3000)"
    by (simp add: toggle_reads_at_def)
  from toggle_twice_restores
         [OF f0 inc, of "toggle_reads_at 2000" open_storage "toggle_reads_at 3000"]
  have "find_task ''a'' (tasks (fst (toggleTask (toggle_reads_at 3000) ''a''
            (toggleTask (toggle_reads_at 2000) ''a'' (example_app [?t0], open_storage)))))
          = Some (?t0\<lparr> completedAt := Null, updatedAt := 3000 \<rparr>)
      \<and> updatedAtOf ''a'' (toggleTask (toggle_reads_at 2000) ''a''
            (example_app [?t0], open_storage)) = Some 2000
      \<and> updatedAtOf ''a'' (toggleTask (toggle_reads_at 3000) ''a''
            (toggleTask (toggle_reads_at 2000) ''a'' (example_app [?t0], open_storage)))
          = Some 3000"
    by (auto simp add: updatedAtOf_def toggle_reads_at_def)
  with f0 inc lt1 lt2 show ?thesis by blast
qed

end
